theory Spec2Isabelle
  imports Main
begin

section \<open>Strings\<close>

text \<open>
  A Python \<open>str\<close> is modelled as a \<open>string\<close>; each \<open>char\<close> stands for one code
  point below 256.
\<close>

definition startswith :: "string \<Rightarrow> string \<Rightarrow> bool" where
  "startswith s p = (take (length p) s = p)"

text \<open>\<open>str.isspace\<close> on one character, for the code points below 256.\<close>

definition isspace :: "char \<Rightarrow> bool" where
  "isspace c = (of_char c \<in> {9, 10, 11, 12, 13, 28, 29, 30, 31, 32, 133, 160 :: nat})"

text \<open>\<open>str.strip()\<close> with no argument: whitespace is removed at both ends.\<close>

definition strip :: "string \<Rightarrow> string" where
  "strip s = rev (dropWhile isspace (rev (dropWhile isspace s)))"

text \<open>\<open>str(n)\<close> for an integer: its decimal digits, with a minus sign when negative.\<close>

definition digit_char :: "nat \<Rightarrow> char" where
  "digit_char d = char_of (48 + d)"

fun str_nat :: "nat \<Rightarrow> string" where
  "str_nat n = (if n < 10 then [digit_char n] else str_nat (n div 10) @ [digit_char (n mod 10)])"

definition str_int :: "int \<Rightarrow> string" where
  "str_int i = (if i < 0 then CHR ''-'' # str_nat (nat (- i)) else str_nat (nat i))"

section \<open>Exceptions\<close>

text \<open>
  The exceptions that the program's own statements can raise: KeyError (a missing
  attribute or an unknown progress task), MarkupError (the console rejects the markup of a
  line; the exception's text is kept), ParserRejectedMarkup (the HTML parser gives up on
  the markup) and ValueError (\<open>urlparse\<close> on a malformed network location). What the
  HTTP session raises is caught inside \<open>fetch_url\<close> and appears there as its text.
  Cancellation and interruption of the process, which are not \<open>Exception\<close>s, are outside
  the model.
\<close>

datatype py_error =
    KeyError
  | MarkupError string
  | ParserRejectedMarkup
  | ValueError

section \<open>The standard library's \<open>urlparse\<close>\<close>

text \<open>
  The program reads two components of \<open>urlparse(url)\<close>: \<open>scheme\<close> and \<open>netloc\<close>.
  The model follows \<open>urllib.parse.urlsplit\<close> of CPython 3.12: leading C0 control
  characters and spaces are dropped, tab, carriage return and line feed are removed, a
  leading run of scheme characters that starts with a letter and ends at the first colon
  is the scheme (in lower case), and when the rest starts with \<open>//\<close> the network location
  runs up to the first of \<open>/\<close>, \<open>?\<close>, \<open>#\<close>. ValueError is raised when the network
  location has one kind of square bracket without the other, and when it has both and the
  text between them is not accepted as an IPv6 or IPvFuture literal. That last check
  (\<open>_check_bracketed_host\<close>, on the \<open>ipaddress\<close> module) is a parameter of the model.
  The library's remaining check (\<open>_checknetloc\<close>) looks for characters whose NFKC form
  contains one of \<open>/?#@:\<close>; there is none among the code points below 256.
\<close>

record ParseResult =
  scheme :: string
  netloc :: string

definition c0_control_or_space :: "char \<Rightarrow> bool" where
  "c0_control_or_space c = ((of_char c :: nat) \<le> 32)"

definition unsafe_url_byte :: "char \<Rightarrow> bool" where
  "unsafe_url_byte c = (of_char c \<in> {9, 10, 13 :: nat})"

definition ascii_upper :: "char \<Rightarrow> bool" where
  "ascii_upper c = (65 \<le> (of_char c :: nat) \<and> (of_char c :: nat) \<le> 90)"

definition ascii_lower :: "char \<Rightarrow> bool" where
  "ascii_lower c = (97 \<le> (of_char c :: nat) \<and> (of_char c :: nat) \<le> 122)"

definition ascii_digit :: "char \<Rightarrow> bool" where
  "ascii_digit c = (48 \<le> (of_char c :: nat) \<and> (of_char c :: nat) \<le> 57)"

definition scheme_char :: "char \<Rightarrow> bool" where
  "scheme_char c = (ascii_lower c \<or> ascii_upper c \<or> ascii_digit c \<or> c \<in> set ''+-.'')"

definition lower_char :: "char \<Rightarrow> char" where
  "lower_char c = (if ascii_upper c then char_of (of_char c + (32 :: nat)) else c)"

text \<open>\<open>netloc.partition('[')[2].partition(']')[0]\<close>\<close>

definition bracketed_host :: "string \<Rightarrow> string" where
  "bracketed_host loc =
     takeWhile (\<lambda>c. c \<noteq> CHR '']'') (drop 1 (dropWhile (\<lambda>c. c \<noteq> CHR ''['') loc))"

definition urlparse :: "(string \<Rightarrow> bool) \<Rightarrow> string \<Rightarrow> py_error + ParseResult" where
  "urlparse check_bracketed_host url0 =
     (let url = filter (\<lambda>c. \<not> unsafe_url_byte c) (dropWhile c0_control_or_space url0);
          cand = takeWhile (\<lambda>c. c \<noteq> CHR '':'') url;
          has_scheme = (length cand < length url \<and> cand \<noteq> [] \<and>
                        (ascii_lower (hd url) \<or> ascii_upper (hd url)) \<and>
                        list_all scheme_char cand);
          sch = (if has_scheme then map lower_char cand else []);
          rest = (if has_scheme then drop (length cand + 1) url else url);
          loc = (if take 2 rest = ''//''
                 then takeWhile (\<lambda>c. c \<notin> set ''/?#'') (drop 2 rest) else [])
      in if (CHR ''['' \<in> set loc \<and> CHR '']'' \<notin> set loc) \<or>
            (CHR '']'' \<in> set loc \<and> CHR ''['' \<notin> set loc)
         then Inl ValueError
         else if CHR ''['' \<in> set loc \<and> CHR '']'' \<in> set loc \<and>
                 \<not> check_bracketed_host (bracketed_host loc)
         then Inl ValueError
         else Inr \<lparr>scheme = sch, netloc = loc\<rparr>)"

section \<open>The parsed document\<close>

text \<open>
  BeautifulSoup turns markup into a tree of tags, strings and comments. A tag has a name,
  its attributes (a dictionary, here an association list read with \<open>map_of\<close>) and its
  children.
\<close>

datatype node =
    Tag string "(string \<times> string) list" "node list"
  | NavigableString string
  | Comment string

type_synonym soup = "node list"

text \<open>The nodes below a node, in document order (depth first, parents before children).\<close>

fun descendants :: "node \<Rightarrow> node list" where
  "descendants (Tag nm as cs) = concat (map (\<lambda>c. c # descendants c) cs)"
| "descendants (NavigableString s) = []"
| "descendants (Comment s) = []"

definition soup_descendants :: "soup \<Rightarrow> node list" where
  "soup_descendants doc = concat (map (\<lambda>c. c # descendants c) doc)"

fun is_tag :: "string \<Rightarrow> node \<Rightarrow> bool" where
  "is_tag nm (Tag nm' as cs) = (nm' = nm)"
| "is_tag nm (NavigableString s) = False"
| "is_tag nm (Comment s) = False"

text \<open>\<open>tag.get(key)\<close>: the attribute's value, or None.\<close>

fun tag_get :: "node \<Rightarrow> string \<Rightarrow> string option" where
  "tag_get (Tag nm as cs) key = map_of as key"
| "tag_get (NavigableString s) key = None"
| "tag_get (Comment s) key = None"

text \<open>\<open>tag[key]\<close> raises KeyError when the attribute is missing.\<close>

definition tag_getitem :: "node \<Rightarrow> string \<Rightarrow> py_error + string" where
  "tag_getitem t key = (case tag_get t key of None \<Rightarrow> Inl KeyError | Some v \<Rightarrow> Inr v)"

text \<open>\<open>tag.text\<close>: the strings below the tag, concatenated; comments are left out.\<close>

fun get_text :: "node \<Rightarrow> string" where
  "get_text (Tag nm as cs) = concat (map get_text cs)"
| "get_text (NavigableString s) = s"
| "get_text (Comment s) = []"

text \<open>
  \<open>soup.find_all(name, ...)\<close> with a filter on the attributes, and \<open>soup.find\<close>, its
  first result or None.
\<close>

definition soup_find_all :: "soup \<Rightarrow> string \<Rightarrow> (node \<Rightarrow> bool) \<Rightarrow> node list" where
  "soup_find_all doc nm attrs_ok = filter (\<lambda>n. is_tag nm n \<and> attrs_ok n) (soup_descendants doc)"

definition soup_find :: "soup \<Rightarrow> string \<Rightarrow> (node \<Rightarrow> bool) \<Rightarrow> node option" where
  "soup_find doc nm attrs_ok =
     (case soup_find_all doc nm attrs_ok of [] \<Rightarrow> None | t # ts \<Rightarrow> Some t)"

text \<open>\<open>soup.title\<close> is \<open>soup.find('title')\<close>.\<close>

definition soup_title :: "soup \<Rightarrow> node option" where
  "soup_title doc = soup_find doc ''title'' (\<lambda>n. True)"

section \<open>The libraries\<close>

text \<open>
  Three behaviours of the libraries are parameters of the model.
  \<^item> \<open>markup_error\<close>: the console of the \<open>rich\<close> library reads the text it prints as
    markup. For a text it rejects (a closing tag that matches no open tag, for instance)
    \<open>console.print\<close> raises MarkupError; the parameter gives that exception's text, and
    None for a text that is printed.
  \<^item> \<open>parse_html\<close>: the tree that \<open>html.parser\<close> builds from markup, or None when the
    parser gives up and BeautifulSoup raises ParserRejectedMarkup.
  \<^item> \<open>bracketed_host_ok\<close>: the check of \<open>urlparse\<close> on a host in square brackets.
\<close>

record library =
  markup_error :: "string \<Rightarrow> string option"
  parse_html :: "string \<Rightarrow> soup option"
  bracketed_host_ok :: "string \<Rightarrow> bool"

text \<open>\<open>console.print(text)\<close>; the console is the list of the texts printed so far.\<close>

definition console_print :: "library \<Rightarrow> string \<Rightarrow> string list \<Rightarrow> string + string list" where
  "console_print lib text console =
     (case markup_error lib text of
        Some e \<Rightarrow> Inl e
      | None \<Rightarrow> Inr (console @ [text]))"

text \<open>\<open>BeautifulSoup(html, 'html.parser')\<close>: empty markup gives the empty document.\<close>

definition BeautifulSoup :: "library \<Rightarrow> string \<Rightarrow> py_error + soup" where
  "BeautifulSoup lib html =
     (if html = [] then Inr []
      else (case parse_html lib html of
              None \<Rightarrow> Inl ParserRejectedMarkup
            | Some doc \<Rightarrow> Inr doc))"

section \<open>The progress reporter\<close>

text \<open>
  The progress reporter of the \<open>rich\<close> library, as far as the program uses it: it
  numbers its tasks from 0, \<open>add_task\<close> returns the new task's number, and
  \<open>update(task_id, advance=n)\<close> adds \<open>n\<close> to the task's completed count and raises
  KeyError for a number that names no task.
\<close>

record task =
  total :: int
  completed :: int

record progress =
  task_index :: int
  tasks :: "int \<rightharpoonup> task"

definition Progress :: progress where
  "Progress = \<lparr>task_index = 0, tasks = Map.empty\<rparr>"

definition add_task :: "progress \<Rightarrow> int \<Rightarrow> int \<times> progress" where
  "add_task p n =
     (task_index p,
      p\<lparr>tasks := (tasks p)(task_index p \<mapsto> \<lparr>total = n, completed = 0\<rparr>),
        task_index := task_index p + 1\<rparr>)"

definition update :: "progress \<Rightarrow> int \<Rightarrow> int \<Rightarrow> py_error + progress" where
  "update p task_id advance =
     (case tasks p task_id of
        None \<Rightarrow> Inl KeyError
      | Some t \<Rightarrow> Inr (p\<lparr>tasks := (tasks p)(task_id \<mapsto> t\<lparr>completed := completed t + advance\<rparr>)\<rparr>))"

section \<open>The HTTP session\<close>

text \<open>
  What \<open>session.get(url, timeout=timeout)\<close> does is the environment's choice: it raises
  (a connection error, a timeout; the exception's text is kept), or it answers with a
  status and a body; reading the body with \<open>response.text()\<close> can raise too. A session
  is a function from the URL and the timeout to that outcome, so the same URL gets the same
  answer throughout a batch.
\<close>

datatype get_result =
    Raises string
  | Responds int "string + string"

type_synonym session = "string \<Rightarrow> nat \<Rightarrow> get_result"

section \<open>fetch_url\<close>

text \<open>The two lines that \<open>fetch_url\<close> prints, with the URL pasted into the markup.\<close>

definition status_line :: "string \<Rightarrow> int \<Rightarrow> string" where
  "status_line url status =
     ''[bold red]Error fetching '' @ url @ '':[/bold red] Status '' @ str_int status"

definition exception_line :: "string \<Rightarrow> string \<Rightarrow> string" where
  "exception_line url e = ''[bold red]Error fetching '' @ url @ '':[/bold red] '' @ e"

text \<open>
  The handler \<open>except Exception as e\<close>: it prints the exception and returns None. An
  exception raised by that print is not caught by anything.
\<close>

definition fetch_url_except ::
  "library \<Rightarrow> string \<Rightarrow> string \<Rightarrow> string list \<Rightarrow> py_error + (string option \<times> string list)" where
  "fetch_url_except lib url e console =
     (case console_print lib (exception_line url e) console of
        Inl e' \<Rightarrow> Inl (MarkupError e')
      | Inr console' \<Rightarrow> Inr (None, console'))"

text \<open>
  The body of the \<open>try\<close>: the request, the reading of the body, and for a status other
  than 200 the print of the status line. Whatever is raised there, the MarkupError of that
  print included, goes to the handler.
\<close>

definition fetch_url ::
  "library \<Rightarrow> session \<Rightarrow> string \<Rightarrow> nat \<Rightarrow> string list
     \<Rightarrow> py_error + (string option \<times> string list)" where
  "fetch_url lib session url timeout console =
     (case session url timeout of
        Raises e \<Rightarrow> fetch_url_except lib url e console
      | Responds status body \<Rightarrow>
          if status = 200
          then (case body of
                  Inl e \<Rightarrow> fetch_url_except lib url e console
                | Inr txt \<Rightarrow> Inr (Some txt, console))
          else (case console_print lib (status_line url status) console of
                  Inl e \<Rightarrow> fetch_url_except lib url e console
                | Inr console' \<Rightarrow> Inr (None, console')))"

section \<open>extract_page_info\<close>

text \<open>
  The guard \<open>if progress and task_id\<close>: a progress object is always true, None is false,
  and an integer is true when it is not 0.
\<close>

definition progress_and_task_id :: "progress option \<Rightarrow> int option \<Rightarrow> bool" where
  "progress_and_task_id progress task_id =
     (case progress of
        None \<Rightarrow> False
      | Some p \<Rightarrow> (case task_id of None \<Rightarrow> False | Some t \<Rightarrow> t \<noteq> 0))"

definition advance_progress :: "progress option \<Rightarrow> int option \<Rightarrow> py_error + progress option" where
  "advance_progress progress task_id =
     (if progress_and_task_id progress task_id
      then (case progress of
              None \<Rightarrow> Inr progress
            | Some p \<Rightarrow>
                (case task_id of
                   None \<Rightarrow> Inr progress
                 | Some t \<Rightarrow> (case update p t 1 of Inl e \<Rightarrow> Inl e | Inr p' \<Rightarrow> Inr (Some p'))))
      else Inr progress)"

text \<open>The loop over the anchors; \<open>links\<close> is the list built so far.\<close>

fun links_loop :: "string \<Rightarrow> node list \<Rightarrow> string list \<Rightarrow> py_error + string list" where
  "links_loop base_url [] links = Inr links"
| "links_loop base_url (a_tag # a_tags) links =
     (case tag_getitem a_tag ''href'' of
        Inl e \<Rightarrow> Inl e
      | Inr href0 \<Rightarrow>
          (let href = (if startswith href0 ''/'' then base_url @ href0 else href0)
           in links_loop base_url a_tags
                (if startswith href ''http://'' \<or> startswith href ''https://''
                 then links @ [href] else links)))"

definition has_href :: "node \<Rightarrow> bool" where
  "has_href n = (tag_get n ''href'' \<noteq> None)"

definition name_is_description :: "node \<Rightarrow> bool" where
  "name_is_description n = (tag_get n ''name'' = Some ''description'')"

record PageResult =
  url :: string
  title :: "string option"
  description :: "string option"
  links :: "string list"

definition failure_result :: "string \<Rightarrow> PageResult" where
  "failure_result u = \<lparr>url = u, title = None, description = None, links = []\<rparr>"

definition extract_page_info ::
  "library \<Rightarrow> session \<Rightarrow> string \<Rightarrow> progress option \<Rightarrow> int option \<Rightarrow> string list
     \<Rightarrow> py_error + (PageResult \<times> progress option \<times> string list)" where
  "extract_page_info lib session u progress task_id console =
     (case fetch_url lib session u 30 console of
        Inl e \<Rightarrow> Inl e
      | Inr (html, console') \<Rightarrow>
          if html = None \<or> html = Some []
          then (case advance_progress progress task_id of
                  Inl e \<Rightarrow> Inl e
                | Inr progress' \<Rightarrow> Inr (failure_result u, progress', console'))
          else
            (case BeautifulSoup lib (case html of None \<Rightarrow> [] | Some h \<Rightarrow> h) of
               Inl e \<Rightarrow> Inl e
             | Inr doc \<Rightarrow>
                 (let ttl = (case soup_title doc of
                               Some t \<Rightarrow> strip (get_text t)
                             | None \<Rightarrow> ''No title'');
                      description_tag = soup_find doc ''meta'' name_is_description;
                      descr = (case description_tag of
                                 Some t \<Rightarrow>
                                   strip (case tag_get t ''content'' of None \<Rightarrow> [] | Some c \<Rightarrow> c)
                               | None \<Rightarrow> ''No description'')
                  in case urlparse (bracketed_host_ok lib) u of
                       Inl e \<Rightarrow> Inl e
                     | Inr parsed \<Rightarrow>
                         (let base_url = scheme parsed @ ''://'' @ netloc parsed
                          in case links_loop base_url (soup_find_all doc ''a'' has_href) [] of
                               Inl e \<Rightarrow> Inl e
                             | Inr lnks \<Rightarrow>
                                 (case advance_progress progress task_id of
                                    Inl e \<Rightarrow> Inl e
                                  | Inr progress' \<Rightarrow>
                                      Inr (\<lparr>url = u, title = Some ttl, description = Some descr,
                                            links = take 5 lnks\<rparr>, progress', console'))))))"

section \<open>process_urls\<close>

text \<open>
  \<open>asyncio.gather\<close> runs the tasks concurrently and returns their results in the order
  of the tasks. A task of this program suspends only while it fetches; what follows the
  fetch (printing, parsing, the progress update) runs without interruption when the fetch
  completes. A run is therefore described by its completion order \<open>sched\<close>, the indices of
  the tasks in the order in which their fetches complete: the tasks take effect on the
  shared state in that order, and each result goes to the slot of its task. The first
  exception raised by a task is raised by \<open>gather\<close>, and with it by \<open>process_urls\<close>,
  which then returns no list. When some task never completes, some slot stays empty and
  \<open>gather\<close> never returns: that is the value None.
\<close>

fun gather_run ::
  "('s \<Rightarrow> py_error + ('a \<times> 's)) list \<Rightarrow> nat list \<Rightarrow> 'a option list \<Rightarrow> 's
     \<Rightarrow> py_error + ('a option list \<times> 's)" where
  "gather_run coros [] slots st = Inr (slots, st)"
| "gather_run coros (i # sched) slots st =
     (if i < length coros
      then (case (coros ! i) st of
              Inl e \<Rightarrow> Inl e
            | Inr (r, st') \<Rightarrow> gather_run coros sched (slots[i := Some r]) st')
      else gather_run coros sched slots st)"

definition gather ::
  "('s \<Rightarrow> py_error + ('a \<times> 's)) list \<Rightarrow> nat list \<Rightarrow> 's \<Rightarrow> (py_error + ('a list \<times> 's)) option" where
  "gather coros sched st =
     (case gather_run coros sched (replicate (length coros) None) st of
        Inl e \<Rightarrow> Some (Inl e)
      | Inr (slots, st') \<Rightarrow>
          (case those slots of None \<Rightarrow> None | Some rs \<Rightarrow> Some (Inr (rs, st'))))"

text \<open>A completion order of \<open>n\<close> tasks: every task completes, once.\<close>

definition completion_order :: "nat list \<Rightarrow> nat \<Rightarrow> bool" where
  "completion_order sched n = (distinct sched \<and> set sched = {0..<n})"

text \<open>
  One task of the batch, as a step on the shared state (the progress reporter and the
  console).
\<close>

definition page_task ::
  "library \<Rightarrow> session \<Rightarrow> int \<Rightarrow> string \<Rightarrow> progress option \<times> string list
     \<Rightarrow> py_error + (PageResult \<times> progress option \<times> string list)" where
  "page_task lib session task_id u st =
     (case st of (progress, console) \<Rightarrow>
        extract_page_info lib session u progress (Some task_id) console)"

text \<open>
  \<open>max_concurrent\<close> only sizes the connection pool of the session
  (\<open>TCPConnector(limit=max_concurrent)\<close>); which runs the pool allows is the choice of
  \<open>sched\<close>. The function returns the results; the model returns with them the progress
  reporter and the console as the batch leaves them.
\<close>

definition process_urls ::
  "library \<Rightarrow> session \<Rightarrow> nat list \<Rightarrow> string list \<Rightarrow> nat \<Rightarrow> string list
     \<Rightarrow> (py_error + (PageResult list \<times> progress option \<times> string list)) option" where
  "process_urls lib session sched urls max_concurrent console =
     (case add_task Progress (int (length urls)) of
        (task_id, progress) \<Rightarrow>
          gather (map (page_task lib session task_id) urls) sched (Some progress, console))"

section \<open>The specification's notions\<close>

text \<open>
  The definitions of this section follow the words of the specification, not the code;
  the theorems below compare the code with them.
\<close>

text \<open>
  A fetch fails: the request raises (a connection error, a timeout), the status is not
  200, or reading the body raises.
\<close>

fun fetch_fails :: "get_result \<Rightarrow> bool" where
  "fetch_fails (Raises e) = True"
| "fetch_fails (Responds status (Inl e)) = True"
| "fetch_fails (Responds status (Inr txt)) = (status \<noteq> 200)"

text \<open>A task number supplied together with a progress reporter names one of its tasks.\<close>

definition task_known :: "progress option \<Rightarrow> int option \<Rightarrow> bool" where
  "task_known progress task_id =
     (case progress of
        None \<Rightarrow> True
      | Some p \<Rightarrow> (case task_id of None \<Rightarrow> True | Some t \<Rightarrow> tasks p t \<noteq> None))"

text \<open>
  Document order: a node comes before its children, and the children of a node in their
  order, each with all that is below it.
\<close>

fun document_order :: "node \<Rightarrow> node list" and forest_order :: "node list \<Rightarrow> node list" where
  "document_order (Tag nm as cs) = Tag nm as cs # forest_order cs"
| "document_order (NavigableString s) = [NavigableString s]"
| "document_order (Comment s) = [Comment s]"
| "forest_order [] = []"
| "forest_order (c # cs) = document_order c @ forest_order cs"

text \<open>The first title element of the document.\<close>

definition first_title :: "soup \<Rightarrow> node option" where
  "first_title doc = List.find (is_tag ''title'') (forest_order doc)"

text \<open>A meta tag whose name attribute equals \<open>description\<close>, and the first of them.\<close>

definition is_description_meta :: "node \<Rightarrow> bool" where
  "is_description_meta n = (is_tag ''meta'' n \<and> tag_get n ''name'' = Some ''description'')"

definition description_meta :: "soup \<Rightarrow> node option" where
  "description_meta doc = List.find is_description_meta (forest_order doc)"

text \<open>The href values of the anchor elements that have an href attribute, in document order.\<close>

definition anchor_hrefs :: "soup \<Rightarrow> string list" where
  "anchor_hrefs doc =
     List.map_filter (\<lambda>n. tag_get n ''href'') (filter (is_tag ''a'') (forest_order doc))"

text \<open>
  A page URL \<open>scheme://host\<close> followed by nothing or by a path, a query or a fragment.
  The scheme starts with a letter and consists of letters, digits, \<open>+\<close>, \<open>-\<close> and \<open>.\<close>;
  the host (with the port and the user information, when there are any) has none of
  \<open>/\<close>, \<open>?\<close>, \<open>#\<close>; the URL has no tab, carriage return or line feed.
\<close>

definition page_url :: "string \<Rightarrow> string \<Rightarrow> string \<Rightarrow> string \<Rightarrow> bool" where
  "page_url u sch host rest =
     (u = sch @ ''://'' @ host @ rest \<and> sch \<noteq> [] \<and>
      (ascii_lower (hd sch) \<or> ascii_upper (hd sch)) \<and> list_all scheme_char sch \<and>
      list_all (\<lambda>c. c \<notin> set ''/?#'') host \<and>
      (rest = [] \<or> hd rest \<in> set ''/?#'') \<and>
      list_all (\<lambda>c. of_char c \<notin> {9, 10, 13 :: nat}) u)"

text \<open>The page's \<open>scheme://host\<close>; a scheme is written in lower case.\<close>

definition scheme_host :: "string \<Rightarrow> string \<Rightarrow> string" where
  "scheme_host sch host = map lower_char sch @ ''://'' @ host"

text \<open>An href that starts with \<open>/\<close> is resolved against the page's scheme and host.\<close>

definition resolve_href :: "string \<Rightarrow> string \<Rightarrow> string" where
  "resolve_href base href = (if startswith href ''/'' then base @ href else href)"

definition is_http_url :: "string \<Rightarrow> bool" where
  "is_http_url href = (startswith href ''http://'' \<or> startswith href ''https://'')"

text \<open>Resolve, keep the absolute http and https URLs, truncate to the first 5.\<close>

definition spec_links :: "string \<Rightarrow> soup \<Rightarrow> string list" where
  "spec_links base doc = take 5 (filter is_http_url (map (resolve_href base) (anchor_hrefs doc)))"

text \<open>
  The single-URL operation run on its own, without a progress reporter and on an empty
  console: whether it returns, and the result it returns.
\<close>

definition headless ::
  "library \<Rightarrow> session \<Rightarrow> string \<Rightarrow> py_error + (PageResult \<times> progress option \<times> string list)" where
  "headless lib session u = extract_page_info lib session u None None []"

definition returns :: "library \<Rightarrow> session \<Rightarrow> string \<Rightarrow> bool" where
  "returns lib session u = (case headless lib session u of Inl e \<Rightarrow> False | Inr r \<Rightarrow> True)"

definition result_of :: "library \<Rightarrow> session \<Rightarrow> string \<Rightarrow> PageResult" where
  "result_of lib session u =
     (case headless lib session u of Inl e \<Rightarrow> failure_result u | Inr (r, p, c) \<Rightarrow> r)"

text \<open>
  Nothing goes wrong with a URL: the console prints the line of its failed fetch, or else
  the line of the exception which that print raised; the parser accepts its body, when one
  is fetched and is not empty, and \<open>urlparse\<close> accepts the URL of such a body.
\<close>

definition handled :: "library \<Rightarrow> string \<Rightarrow> string \<Rightarrow> bool" where
  "handled lib u e = (markup_error lib (exception_line u e) = None)"

definition trouble_free :: "library \<Rightarrow> session \<Rightarrow> string \<Rightarrow> bool" where
  "trouble_free lib session u =
     (case session u 30 of
        Raises e \<Rightarrow> handled lib u e
      | Responds status body \<Rightarrow>
          if status = 200
          then (case body of
                  Inl e \<Rightarrow> handled lib u e
                | Inr html \<Rightarrow>
                    html = [] \<or>
                    (parse_html lib html \<noteq> None \<and>
                     urlparse (bracketed_host_ok lib) u \<noteq> Inl ValueError))
          else (case markup_error lib (status_line u status) of
                  None \<Rightarrow> True
                | Some e \<Rightarrow> handled lib u e))"

section \<open>Example pages\<close>

text \<open>
  A console that rejects the closing tag \<open>[/x]\<close>, as the console of \<open>rich\<close> rejects a
  closing tag that matches no open tag, and prints every other line of the examples.
\<close>

fun contains :: "string \<Rightarrow> string \<Rightarrow> bool" where
  "contains [] sub = (sub = [])"
| "contains (c # s) sub = (startswith (c # s) sub \<or> contains s sub)"

definition example_markup_error :: "string \<Rightarrow> string option" where
  "example_markup_error text =
     (if contains text ''[/x]''
      then Some ''closing tag [/x] does not match any open tag'' else None)"

text \<open>
  The documents of the examples, and a parser that builds them: the page of the
  specification's link example (its anchors at several depths), a page with a title and a
  description, a page whose only description tag has no content attribute, a page with two
  description tags of which the second has no content attribute, and a page with eight
  links. The parser gives up on the markup \<open><![foo]>\<close>.
\<close>

definition links_html :: string where
  "links_html = ''<body><a href=/about>A</a><div><p><a href=https://x.com/page>B</a></p><a href=mailto:a@b.com>C</a></div><a href=#frag>D</a></body>''"

definition links_doc :: soup where
  "links_doc =
     [Tag ''body'' []
        [Tag ''a'' [(''href'', ''/about'')] [NavigableString ''A''],
         Tag ''div'' []
           [Tag ''p'' [] [Tag ''a'' [(''href'', ''https://x.com/page'')] [NavigableString ''B'']],
            Tag ''a'' [(''href'', ''mailto:a@b.com'')] [NavigableString ''C'']],
         Tag ''a'' [(''href'', ''#frag'')] [NavigableString ''D'']]]"

definition titled_html :: string where
  "titled_html = ''<html><head><title> Home </title><meta name=description content=Welcome></head><body><p>Hi</p></body></html>''"

definition titled_doc :: soup where
  "titled_doc =
     [Tag ''html'' []
        [Tag ''head'' []
           [Tag ''title'' [] [NavigableString '' Home ''],
            Tag ''meta'' [(''name'', ''description''), (''content'', ''Welcome'')] []],
         Tag ''body'' [] [Tag ''p'' [] [NavigableString ''Hi'']]]]"

definition bare_html :: string where
  "bare_html = ''<head><meta name=description></head><a href=about.html>A</a>''"

definition bare_doc :: soup where
  "bare_doc =
     [Tag ''head'' [] [Tag ''meta'' [(''name'', ''description'')] []],
      Tag ''a'' [(''href'', ''about.html'')] [NavigableString ''A'']]"

definition twice_html :: string where
  "twice_html = ''<head><meta name=description content=hi><meta name=description></head>''"

definition twice_doc :: soup where
  "twice_doc =
     [Tag ''head'' []
        [Tag ''meta'' [(''name'', ''description''), (''content'', ''hi'')] [],
         Tag ''meta'' [(''name'', ''description'')] []]]"

definition many_html :: string where
  "many_html = ''<ul><li><a href=/1></a><a href=/2></a></li><li><a href=/3></a></li></ul><a href=/4></a><a href=/5></a><a href=/6></a><a href=/7></a><a href=/8></a>''"

definition many_doc :: soup where
  "many_doc =
     [Tag ''ul'' []
        [Tag ''li'' [] [Tag ''a'' [(''href'', ''/1'')] [], Tag ''a'' [(''href'', ''/2'')] []],
         Tag ''li'' [] [Tag ''a'' [(''href'', ''/3'')] []]],
      Tag ''a'' [(''href'', ''/4'')] [], Tag ''a'' [(''href'', ''/5'')] [],
      Tag ''a'' [(''href'', ''/6'')] [], Tag ''a'' [(''href'', ''/7'')] [],
      Tag ''a'' [(''href'', ''/8'')] []]"

definition rejected_html :: string where
  "rejected_html = ''<![foo]><title>T</title>''"

definition example_parse_html :: "string \<Rightarrow> soup option" where
  "example_parse_html markup =
     (if markup = links_html then Some links_doc
      else if markup = titled_html then Some titled_doc
      else if markup = bare_html then Some bare_doc
      else if markup = twice_html then Some twice_doc
      else if markup = many_html then Some many_doc
      else if markup = rejected_html then None
      else Some [NavigableString markup])"

definition example_library :: library where
  "example_library =
     \<lparr>markup_error = example_markup_error, parse_html = example_parse_html,
      bracketed_host_ok = (\<lambda>h. h = ''::1'')\<rparr>"

definition example_session :: session where
  "example_session u timeout =
     (if u = ''https://site.com'' then Responds 200 (Inr links_html)
      else if u = ''https://site.com/home'' then Responds 200 (Inr titled_html)
      else if u = ''https://site.com/bare'' then Responds 200 (Inr bare_html)
      else if u = ''https://site.com/twice'' then Responds 200 (Inr twice_html)
      else if u = ''HTTP://Other.example:8080/many?page=1'' then Responds 200 (Inr many_html)
      else if u = ''https://site.com/rejected'' then Responds 200 (Inr rejected_html)
      else if u = ''https://site.com/empty'' then Responds 200 (Inr [])
      else if u = ''https://site.com/gone'' then Responds 500 (Inr ''Internal Server Error'')
      else if u = ''http://host/[/x]'' then Responds 404 (Inr ''Not Found'')
      else Raises ''Cannot connect to host'')"

text \<open>The same session, except that \<open>https://site.com/gone\<close> is served.\<close>

definition repaired_session :: session where
  "repaired_session u timeout =
     (if u = ''https://site.com/gone'' then Responds 200 (Inr titled_html)
      else example_session u timeout)"

text \<open>A progress reporter with two tasks, numbered 0 and 1.\<close>

definition two_tasks :: progress where
  "two_tasks = snd (add_task (snd (add_task Progress 1)) 1)"

section \<open>Auxiliary facts\<close>

declare str_nat.simps [simp del]

lemma fetch_url_except_console:
  "fetch_url_except lib u e c =
     (case fetch_url_except lib u e [] of Inl e' \<Rightarrow> Inl e' | Inr (h, m) \<Rightarrow> Inr (h, c @ m))"
  by (simp add: fetch_url_except_def console_print_def split: option.split)

lemma fetch_url_console:
  "fetch_url lib session u t c =
     (case fetch_url lib session u t [] of Inl e \<Rightarrow> Inl e | Inr (h, m) \<Rightarrow> Inr (h, c @ m))"
proof (cases "session u t")
  case (Raises e)
  then show ?thesis
    using fetch_url_except_console [of lib u e c] by (simp add: fetch_url_def)
next
  case (Responds status body)
  show ?thesis
  proof (cases "status = 200")
    case True
    show ?thesis
    proof (cases body)
      case (Inl e)
      with Responds True show ?thesis
        using fetch_url_except_console [of lib u e c] by (simp add: fetch_url_def)
    next
      case (Inr content)
      with Responds True show ?thesis by (simp add: fetch_url_def)
    qed
  next
    case False
    show ?thesis
    proof (cases "markup_error lib (status_line u status)")
      case None
      with Responds False show ?thesis by (simp add: fetch_url_def console_print_def)
    next
      case (Some e)
      with Responds False show ?thesis
        using fetch_url_except_console [of lib u e c] by (simp add: fetch_url_def console_print_def)
    qed
  qed
qed

lemma fetch_url_success:
  "session u 30 = Responds 200 (Inr html) \<Longrightarrow> fetch_url lib session u 30 c = Inr (Some html, c)"
  by (simp add: fetch_url_def)

lemma descendants_order:
  "c # descendants c = document_order c"
  "concat (map (\<lambda>c. c # descendants c) cs) = forest_order cs"
  by (induction c and cs rule: document_order_forest_order.induct) simp_all

lemma soup_descendants_order: "soup_descendants doc = forest_order doc"
  by (simp add: soup_descendants_def descendants_order(2))

lemma links_loop_collects:
  "list_all has_href ts \<Longrightarrow>
   links_loop b ts acc =
     Inr (acc @ filter is_http_url (map (resolve_href b) (List.map_filter (\<lambda>n. tag_get n ''href'') ts)))"
proof (induction ts arbitrary: acc)
  case Nil
  then show ?case by (simp add: map_filter_simps)
next
  case (Cons t ts)
  from Cons.prems have rest: "list_all has_href ts" and "has_href t"
    by simp_all
  then obtain h where h: "tag_get t ''href'' = Some h"
    by (auto simp: has_href_def)
  show ?case
    using Cons.IH [OF rest] h
    by (simp add: tag_getitem_def map_filter_simps resolve_href_def is_http_url_def Let_def)
qed

lemma hrefs_of_find_all:
  "List.map_filter (\<lambda>n. tag_get n ''href'') (filter (\<lambda>n. is_tag ''a'' n \<and> has_href n) ns) =
   List.map_filter (\<lambda>n. tag_get n ''href'') (filter (is_tag ''a'') ns)"
  by (induction ns) (auto simp: map_filter_simps has_href_def)

lemma links_loop_find_all:
  "links_loop b (soup_find_all doc ''a'' has_href) [] =
     Inr (filter is_http_url (map (resolve_href b) (anchor_hrefs doc)))"
proof -
  have "list_all has_href (soup_find_all doc ''a'' has_href)"
    by (simp add: soup_find_all_def list_all_iff)
  from links_loop_collects [OF this, of b "[]"] show ?thesis
    by (simp add: soup_find_all_def anchor_hrefs_def hrefs_of_find_all soup_descendants_order)
qed

lemma first_of_filter:
  "(case filter P xs of [] \<Rightarrow> None | x # ys \<Rightarrow> Some x) = List.find P xs"
  by (induction xs) simp_all

lemma soup_title_first: "soup_title doc = first_title doc"
  by (simp add: soup_title_def soup_find_def soup_find_all_def first_title_def first_of_filter
      soup_descendants_order)

lemma soup_find_description:
  "soup_find doc ''meta'' name_is_description = description_meta doc"
proof -
  have "(\<lambda>n. is_tag ''meta'' n \<and> name_is_description n) = is_description_meta"
    by (rule ext) (simp add: name_is_description_def is_description_meta_def)
  then show ?thesis
    by (simp add: soup_find_def soup_find_all_def description_meta_def first_of_filter
        soup_descendants_order)
qed

lemma advance_progress_known:
  "task_known progress task_id \<Longrightarrow> \<exists>p'. advance_progress progress task_id = Inr p'"
  by (auto simp: task_known_def advance_progress_def update_def progress_and_task_id_def
      split: option.splits)

lemma advance_progress_zero: "advance_progress progress (Some 0) = Inr progress"
  by (simp add: advance_progress_def progress_and_task_id_def split: option.splits)

lemma advance_progress_None: "advance_progress None task_id = Inr None"
  by (simp add: advance_progress_def progress_and_task_id_def)

lemma scheme_char_not_colon: "scheme_char c \<Longrightarrow> c \<noteq> CHR '':''"
  by (auto simp: scheme_char_def ascii_lower_def ascii_upper_def ascii_digit_def)

lemma urlparse_error: "urlparse chk u = Inl e \<Longrightarrow> e = ValueError"
  by (simp add: urlparse_def Let_def split: if_splits)

lemma page_urlD:
  assumes "page_url u sch host rest"
  shows "u = sch @ ''://'' @ host @ rest" "sch \<noteq> []"
    "ascii_lower (hd sch) \<or> ascii_upper (hd sch)" "list_all scheme_char sch"
    "list_all (\<lambda>c. c \<notin> set ''/?#'') host"
    "rest = [] \<or> hd rest \<in> set ''/?#''"
    "list_all (\<lambda>c. of_char c \<notin> {9, 10, 13 :: nat}) u"
  using assms by (auto simp only: page_url_def)

lemma dropWhile_scheme:
  assumes sch: "sch \<noteq> []" "ascii_lower (hd sch) \<or> ascii_upper (hd sch)"
  shows "dropWhile c0_control_or_space (sch @ xs) = sch @ xs"
proof -
  from sch(1) obtain a sch' where s: "sch = a # sch'" by (cases sch) auto
  with sch(2) have "\<not> c0_control_or_space a"
    by (auto simp: c0_control_or_space_def ascii_lower_def ascii_upper_def)
  then show ?thesis by (simp add: s)
qed

lemma filter_safe_url: "list_all (\<lambda>c. of_char c \<notin> {9, 10, 13 :: nat}) u \<Longrightarrow> filter (\<lambda>c. \<not> unsafe_url_byte c) u = u"
  by (induction u) (simp_all add: unsafe_url_byte_def)

lemma takeWhile_scheme: "list_all scheme_char sch \<Longrightarrow> takeWhile (\<lambda>c. c \<noteq> CHR '':'') (sch @ CHR '':'' # xs) = sch"
  by (induction sch) (simp_all add: scheme_char_not_colon)

lemma takeWhile_host:
  "list_all (\<lambda>c. c \<notin> set ''/?#'') host \<Longrightarrow> rest = [] \<or> hd rest \<in> set ''/?#'' \<Longrightarrow>
   takeWhile (\<lambda>c. c \<notin> set ''/?#'') (host @ rest) = host"
proof (induction host)
  case Nil
  then show ?case by (cases rest) auto
next
  case (Cons a host)
  then show ?case by simp
qed


lemma urlparse_page_url:
  assumes "page_url u sch host rest" and "urlparse chk u \<noteq> Inl ValueError"
  shows "urlparse chk u = Inr \<lparr>scheme = map lower_char sch, netloc = host\<rparr>"
proof -
  note d = page_urlD [OF assms(1)]
  have 1: "dropWhile c0_control_or_space u = u"
    using dropWhile_scheme [OF d(2,3)] d(1) by simp
  have 2: "filter (\<lambda>c. \<not> unsafe_url_byte c) u = u"
    using filter_safe_url [OF d(7)] .
  have 3: "takeWhile (\<lambda>c. c \<noteq> CHR '':'') u = sch"
    using takeWhile_scheme [OF d(4)] d(1) by simp
  have 4: "length sch < length u" "hd u = hd sch"
    using d(1,2) by simp_all
  have 5: "drop (Suc (length sch)) u = ''//'' @ host @ rest"
    using d(1) by simp
  have 6: "takeWhile (\<lambda>c. c \<notin> set ''/?#'') (host @ rest) = host"
    using takeWhile_host [OF d(5,6)] .
  have 7: "take 2 (''//'' @ host @ rest) = ''//''" "drop 2 (''//'' @ host @ rest) = host @ rest"
    by simp_all
  have "urlparse chk u =
     (if (CHR ''['' \<in> set host \<and> CHR '']'' \<notin> set host) \<or>
         (CHR '']'' \<in> set host \<and> CHR ''['' \<notin> set host)
      then Inl ValueError
      else if CHR ''['' \<in> set host \<and> CHR '']'' \<in> set host \<and> \<not> chk (bracketed_host host)
      then Inl ValueError
      else Inr \<lparr>scheme = map lower_char sch, netloc = host\<rparr>)"
    unfolding urlparse_def Let_def 1 2 3
    by (simp only: 4 5 6 7 d(2,3,4) Suc_eq_plus1 [symmetric] simp_thms if_True if_False)
  with assms(2) show ?thesis
    by (simp split: if_splits)
qed

lemma extract_fetch_error:
  "fetch_url lib session u 30 c = Inl e \<Longrightarrow>
   extract_page_info lib session u progress task_id c = Inl e"
  by (simp add: extract_page_info_def)

lemma extract_no_body:
  "fetch_url lib session u 30 c = Inr (h, c') \<Longrightarrow> h = None \<or> h = Some [] \<Longrightarrow>
   extract_page_info lib session u progress task_id c =
     (case advance_progress progress task_id of
        Inl e \<Rightarrow> Inl e
      | Inr p' \<Rightarrow> Inr (failure_result u, p', c'))"
  by (auto simp: extract_page_info_def)

lemma extract_body:
  assumes "fetch_url lib session u 30 c = Inr (Some html, c')" and "html \<noteq> []"
  shows "extract_page_info lib session u progress task_id c =
     (case parse_html lib html of
        None \<Rightarrow> Inl ParserRejectedMarkup
      | Some doc \<Rightarrow>
          (case urlparse (bracketed_host_ok lib) u of
             Inl e \<Rightarrow> Inl e
           | Inr parsed \<Rightarrow>
               (case advance_progress progress task_id of
                  Inl e \<Rightarrow> Inl e
                | Inr p' \<Rightarrow>
                    Inr (\<lparr>url = u,
                          title = Some (case first_title doc of
                                          None \<Rightarrow> ''No title'' | Some t \<Rightarrow> strip (get_text t)),
                          description = Some (case description_meta doc of
                                          None \<Rightarrow> ''No description''
                                        | Some m \<Rightarrow> strip (case tag_get m ''content'' of
                                                             None \<Rightarrow> [] | Some v \<Rightarrow> v)),
                          links = spec_links (scheme parsed @ ''://'' @ netloc parsed) doc\<rparr>,
                         p', c'))))"
  using assms
  by (simp add: extract_page_info_def BeautifulSoup_def Let_def links_loop_find_all
      soup_title_first soup_find_description spec_links_def
      split: option.split sum.split)

lemma extract_known:
  assumes "task_known progress task_id"
  shows "\<exists>p'. extract_page_info lib session u progress task_id c =
     (case headless lib session u of
        Inl e \<Rightarrow> Inl e
      | Inr (r, p, m) \<Rightarrow> Inr (r, p', c @ m))"
proof -
  from advance_progress_known [OF assms]
  obtain p' where p': "advance_progress progress task_id = Inr p'" ..
  have "extract_page_info lib session u progress task_id c =
     (case headless lib session u of
        Inl e \<Rightarrow> Inl e
      | Inr (r, p, m) \<Rightarrow> Inr (r, p', c @ m))"
  proof (cases "fetch_url lib session u 30 []")
    case (Inl e)
    then have "fetch_url lib session u 30 c = Inl e"
      using fetch_url_console [of lib session u 30 c] by simp
    with Inl show ?thesis
      by (simp add: headless_def extract_fetch_error)
  next
    case (Inr hm)
    obtain h m where hm: "hm = (h, m)" by (cases hm)
    with Inr have f0: "fetch_url lib session u 30 [] = Inr (h, m)" by simp
    then have fc: "fetch_url lib session u 30 c = Inr (h, c @ m)"
      using fetch_url_console [of lib session u 30 c] by simp
    show ?thesis
    proof (cases "h = None \<or> h = Some []")
      case True
      then show ?thesis
        using extract_no_body [OF f0 True, of None None]
          extract_no_body [OF fc True, of progress task_id] p'
        by (simp add: headless_def advance_progress_None)
    next
      case False
      then obtain html where h: "h = Some html" and ne: "html \<noteq> []" by (cases h) auto
      show ?thesis
        using extract_body [OF f0 [unfolded h] ne, of None None]
          extract_body [OF fc [unfolded h] ne, of progress task_id] p'
        by (simp add: headless_def advance_progress_None split: option.split sum.split)
    qed
  qed
  then show ?thesis ..
qed

lemma extract_task_zero:
  "extract_page_info lib session u progress (Some 0) c =
     (case headless lib session u of
        Inl e \<Rightarrow> Inl e
      | Inr (r, p, m) \<Rightarrow> Inr (r, progress, c @ m))"
proof (cases "fetch_url lib session u 30 []")
  case (Inl e)
  then have "fetch_url lib session u 30 c = Inl e"
    using fetch_url_console [of lib session u 30 c] by simp
  with Inl show ?thesis
    by (simp add: headless_def extract_fetch_error)
next
  case (Inr hm)
  obtain h m where hm: "hm = (h, m)" by (cases hm)
  with Inr have f0: "fetch_url lib session u 30 [] = Inr (h, m)" by simp
  then have fc: "fetch_url lib session u 30 c = Inr (h, c @ m)"
    using fetch_url_console [of lib session u 30 c] by simp
  show ?thesis
  proof (cases "h = None \<or> h = Some []")
    case True
    then show ?thesis
      using extract_no_body [OF f0 True, of None None]
        extract_no_body [OF fc True, of progress "Some 0"]
      by (simp add: headless_def advance_progress_None advance_progress_zero)
  next
    case False
    then obtain html where h: "h = Some html" and ne: "html \<noteq> []" by (cases h) auto
    show ?thesis
      using extract_body [OF f0 [unfolded h] ne, of None None]
        extract_body [OF fc [unfolded h] ne, of progress "Some 0"]
      by (simp add: headless_def advance_progress_None advance_progress_zero
          split: option.split sum.split)
  qed
qed

lemma headless_shape:
  "headless lib session u = Inr (r, p, m) \<Longrightarrow> p = None \<and> url r = u"
proof (cases "fetch_url lib session u 30 []")
  case (Inl e)
  assume "headless lib session u = Inr (r, p, m)"
  with Inl show ?thesis by (simp add: headless_def extract_fetch_error)
next
  case (Inr hm)
  assume a: "headless lib session u = Inr (r, p, m)"
  obtain h m' where hm: "hm = (h, m')" by (cases hm)
  with Inr have f0: "fetch_url lib session u 30 [] = Inr (h, m')" by simp
  show ?thesis
  proof (cases "h = None \<or> h = Some []")
    case True
    then show ?thesis
      using extract_no_body [OF f0 True, of None None] a
      by (auto simp: headless_def advance_progress_None failure_result_def)
  next
    case False
    then obtain html where h: "h = Some html" and ne: "html \<noteq> []" by (cases h) auto
    show ?thesis
      using extract_body [OF f0 [unfolded h] ne, of None None] a
      by (auto simp: headless_def advance_progress_None split: option.splits sum.splits)
  qed
qed


lemma returns_result:
  "returns lib session u \<Longrightarrow>
   \<exists>m. headless lib session u = Inr (result_of lib session u, None, m)"
proof -
  assume "returns lib session u"
  then obtain r p m where h: "headless lib session u = Inr (r, p, m)"
    by (cases "headless lib session u") (auto simp: returns_def)
  with headless_shape [OF h] show ?thesis
    by (simp add: result_of_def)
qed

lemma not_returns:
  "\<not> returns lib session u \<Longrightarrow> \<exists>e. headless lib session u = Inl e"
  by (cases "headless lib session u") (auto simp: returns_def)

lemma urlparse_accepts:
  "urlparse chk u \<noteq> Inl ValueError \<Longrightarrow> \<exists>parsed. urlparse chk u = Inr parsed"
  using urlparse_error [of chk u] by (cases "urlparse chk u") auto

lemma returns_after_fetch:
  "returns lib session u =
     (case fetch_url lib session u 30 [] of
        Inl e \<Rightarrow> False
      | Inr (h, m) \<Rightarrow>
          (case h of
             None \<Rightarrow> True
           | Some html \<Rightarrow>
               html = [] \<or>
               (parse_html lib html \<noteq> None \<and>
                urlparse (bracketed_host_ok lib) u \<noteq> Inl ValueError)))"
proof (cases "fetch_url lib session u 30 []")
  case (Inl e)
  then show ?thesis
    by (simp add: returns_def headless_def extract_fetch_error)
next
  case (Inr hm)
  obtain h m where hm: "hm = (h, m)" by (cases hm)
  with Inr have f0: "fetch_url lib session u 30 [] = Inr (h, m)" by simp
  show ?thesis
  proof (cases "h = None \<or> h = Some []")
    case True
    then show ?thesis
      using extract_no_body [OF f0 True, of None None] f0
      by (auto simp: returns_def headless_def advance_progress_None)
  next
    case False
    then obtain html where h: "h = Some html" and ne: "html \<noteq> []" by (cases h) auto
    show ?thesis
    proof (cases "parse_html lib html")
      case None
      then show ?thesis
        using extract_body [OF f0 [unfolded h] ne, of None None] f0 h ne
        by (simp add: returns_def headless_def)
    next
      case (Some doc)
      show ?thesis
      proof (cases "urlparse (bracketed_host_ok lib) u")
        case (Inl e)
        with urlparse_error [OF Inl] Some show ?thesis
          using extract_body [OF f0 [unfolded h] ne, of None None] f0 h ne
          by (simp add: returns_def headless_def)
      next
        case (Inr parsed)
        with Some show ?thesis
          using extract_body [OF f0 [unfolded h] ne, of None None] f0 h ne
          by (simp add: returns_def headless_def advance_progress_None)
      qed
    qed
  qed
qed

lemma trouble_free_returns: "trouble_free lib session u = returns lib session u"
proof (cases "session u 30")
  case (Raises e)
  then show ?thesis
    by (simp add: returns_after_fetch trouble_free_def handled_def fetch_url_def
        fetch_url_except_def console_print_def split: option.split)
next
  case (Responds status body)
  show ?thesis
  proof (cases "status = 200")
    case True
    with Responds show ?thesis
      by (simp add: returns_after_fetch trouble_free_def handled_def fetch_url_def
          fetch_url_except_def console_print_def split: option.split sum.split)
  next
    case False
    with Responds show ?thesis
      by (simp add: returns_after_fetch trouble_free_def handled_def fetch_url_def
          fetch_url_except_def console_print_def split: option.split)
  qed
qed

section \<open>The batch\<close>

lemma those_map_Some: "those (map (Some \<circ> f) xs) = Some (map f xs)"
  by (induction xs) simp_all

lemma length_fold_update:
  "length (fold (\<lambda>i sl. sl[i := g i]) sched slots) = length slots"
  by (induction sched arbitrary: slots) simp_all

lemma nth_fold_update:
  "k < length slots \<Longrightarrow>
   fold (\<lambda>i sl. sl[i := g i]) sched slots ! k = (if k \<in> set sched then g k else slots ! k)"
  by (induction sched arbitrary: slots) (auto simp: nth_list_update)

lemma fold_update_all:
  assumes "set sched = {0..<length xs}"
  shows "fold (\<lambda>i sl. sl[i := Some (xs ! i)]) sched (replicate (length xs) None) = map Some xs"
proof (rule nth_equalityI)
  show "length (fold (\<lambda>i sl. sl[i := Some (xs ! i)]) sched (replicate (length xs) None)) =
        length (map Some xs)"
    by (simp add: length_fold_update)
next
  fix k
  assume "k < length (fold (\<lambda>i sl. sl[i := Some (xs ! i)]) sched (replicate (length xs) None))"
  then have k: "k < length xs" by (simp add: length_fold_update)
  then have "k \<in> set sched" using assms by simp
  with k show "fold (\<lambda>i sl. sl[i := Some (xs ! i)]) sched (replicate (length xs) None) ! k =
        map Some xs ! k"
    by (simp add: nth_fold_update)
qed

lemma page_task_zero:
  "page_task lib session 0 u (pr, c) =
     (case headless lib session u of
        Inl e \<Rightarrow> Inl e
      | Inr (r, p, m) \<Rightarrow> Inr (r, pr, c @ m))"
  by (simp add: page_task_def extract_task_zero)

lemma gather_run_pages:
  assumes "\<forall>u \<in> set urls. returns lib session u"
  shows "length slots = length urls \<Longrightarrow>
   \<exists>c'. gather_run (map (page_task lib session 0) urls) sched slots (pr, c) =
     Inr (fold (\<lambda>i sl. sl[i := Some (map (result_of lib session) urls ! i)]) sched slots, pr, c')"
proof (induction sched arbitrary: slots c)
  case Nil
  then show ?case by simp
next
  case (Cons i sched)
  show ?case
  proof (cases "i < length urls")
    case True
    then have "returns lib session (urls ! i)" using assms by simp
    from returns_result [OF this]
    obtain m where h: "headless lib session (urls ! i) =
        Inr (result_of lib session (urls ! i), None, m)" ..
    let ?s = "slots[i := Some (map (result_of lib session) urls ! i)]"
    have "length ?s = length urls" using Cons.prems by simp
    from Cons.IH [OF this, of "c @ m"] True h show ?thesis
      by (simp add: page_task_zero)
  next
    case False
    then have "slots[i := Some (map (result_of lib session) urls ! i)] = slots"
      using Cons.prems by (simp add: list_update_beyond)
    with Cons.IH [OF Cons.prems, of c] False show ?thesis by simp
  qed
qed


lemma process_urls_returns:
  assumes "completion_order sched (length urls)" and "\<forall>u \<in> set urls. returns lib session u"
  shows "\<exists>c'. process_urls lib session sched urls max_concurrent console =
     Some (Inr (map (result_of lib session) urls,
                Some \<lparr>task_index = 1, tasks = [0 \<mapsto> \<lparr>total = int (length urls), completed = 0\<rparr>]\<rparr>, c'))"
proof -
  let ?p = "\<lparr>task_index = 1, tasks = [0 \<mapsto> \<lparr>total = int (length urls), completed = 0\<rparr>]\<rparr>"
  let ?rs = "map (result_of lib session) urls"
  have a: "add_task Progress (int (length urls)) = (0, ?p)"
    by (simp add: add_task_def Progress_def)
  have s: "set sched = {0..<length ?rs}" using assms(1) by (simp add: completion_order_def)
  from gather_run_pages [OF assms(2), of "replicate (length urls) None" sched "Some ?p" console]
  obtain c' where "gather_run (map (page_task lib session 0) urls) sched
      (replicate (length urls) None) (Some ?p, console) =
     Inr (fold (\<lambda>i sl. sl[i := Some (?rs ! i)]) sched (replicate (length urls) None), Some ?p, c')"
    by auto
  then have "gather_run (map (page_task lib session 0) urls) sched
      (replicate (length urls) None) (Some ?p, console) = Inr (map Some ?rs, Some ?p, c')"
    using fold_update_all [OF s] by simp
  then show ?thesis
    by (simp add: process_urls_def a gather_def those_map_Some)
qed


lemma extract_page_known:
  assumes "session u 30 = Responds 200 (Inr html)" and "html \<noteq> []"
    and "parse_html lib html = Some doc"
    and "urlparse (bracketed_host_ok lib) u = Inr parsed"
    and "task_known progress task_id"
  shows "\<exists>p'. extract_page_info lib session u progress task_id c =
     Inr (\<lparr>url = u,
           title = Some (case first_title doc of
                           None \<Rightarrow> ''No title'' | Some t \<Rightarrow> strip (get_text t)),
           description = Some (case description_meta doc of
                           None \<Rightarrow> ''No description''
                         | Some m \<Rightarrow> strip (case tag_get m ''content'' of
                                              None \<Rightarrow> [] | Some v \<Rightarrow> v)),
           links = spec_links (scheme parsed @ ''://'' @ netloc parsed) doc\<rparr>, p', c)"
proof -
  from advance_progress_known [OF assms(5)]
  obtain p' where p': "advance_progress progress task_id = Inr p'" ..
  have f: "fetch_url lib session u 30 c = Inr (Some html, c)"
    using fetch_url_success [where session = session and u = u and html = html] assms(1)
    by simp
  from extract_body [OF f assms(2), of progress task_id] assms(3,4) p' show ?thesis
    by simp
qed

lemma extract_empty_known:
  assumes "session u 30 = Responds 200 (Inr [])" and "task_known progress task_id"
  shows "\<exists>p'. extract_page_info lib session u progress task_id c = Inr (failure_result u, p', c)"
proof -
  from advance_progress_known [OF assms(2)]
  obtain p' where p': "advance_progress progress task_id = Inr p'" ..
  have f: "fetch_url lib session u 30 c = Inr (Some [], c)"
    using fetch_url_success [where session = session and u = u and html = "[]"] assms(1)
    by simp
  from extract_no_body [OF f, of progress task_id] p' show ?thesis
    by simp
qed

section \<open>The example pages, evaluated\<close>

lemma example_fetches:
  "example_session ''https://site.com'' 30 = Responds 200 (Inr links_html)"
  "example_session ''https://site.com/home'' 30 = Responds 200 (Inr titled_html)"
  "example_session ''https://site.com/bare'' 30 = Responds 200 (Inr bare_html)"
  "example_session ''https://site.com/twice'' 30 = Responds 200 (Inr twice_html)"
  "example_session ''HTTP://Other.example:8080/many?page=1'' 30 = Responds 200 (Inr many_html)"
  "example_session ''https://site.com/rejected'' 30 = Responds 200 (Inr rejected_html)"
  "example_session ''https://site.com/empty'' 30 = Responds 200 (Inr [])"
  "example_session ''https://site.com/gone'' 30 = Responds 500 (Inr ''Internal Server Error'')"
  "example_session ''http://host/[/x]'' 30 = Responds 404 (Inr ''Not Found'')"
  "example_session ''https://slow.example'' 30 = Raises ''Cannot connect to host''"
  by (simp_all add: example_session_def)

lemma example_documents:
  "BeautifulSoup example_library links_html = Inr links_doc"
  "BeautifulSoup example_library titled_html = Inr titled_doc"
  "BeautifulSoup example_library bare_html = Inr bare_doc"
  "BeautifulSoup example_library twice_html = Inr twice_doc"
  "BeautifulSoup example_library many_html = Inr many_doc"
  "BeautifulSoup example_library rejected_html = Inl ParserRejectedMarkup"
  by (simp_all add: BeautifulSoup_def example_library_def example_parse_html_def links_html_def
      titled_html_def bare_html_def twice_html_def many_html_def rejected_html_def)

lemma example_nonempty:
  "links_html \<noteq> []" "titled_html \<noteq> []" "bare_html \<noteq> []" "twice_html \<noteq> []"
  "many_html \<noteq> []" "rejected_html \<noteq> []"
  by (simp_all add: links_html_def titled_html_def bare_html_def twice_html_def many_html_def
      rejected_html_def)

lemma example_parses:
  "parse_html example_library links_html = Some links_doc"
  "parse_html example_library titled_html = Some titled_doc"
  "parse_html example_library bare_html = Some bare_doc"
  "parse_html example_library twice_html = Some twice_doc"
  "parse_html example_library many_html = Some many_doc"
  "parse_html example_library rejected_html = None"
  using example_documents example_nonempty
  by (simp_all add: BeautifulSoup_def split: option.splits)

lemma task_known_examples:
  "task_known None None" "task_known (Some two_tasks) (Some 1)"
  by (simp_all add: task_known_def two_tasks_def add_task_def Progress_def)

lemma example_urls:
  "urlparse (bracketed_host_ok example_library) ''https://site.com'' =
     Inr \<lparr>scheme = ''https'', netloc = ''site.com''\<rparr>"
  "urlparse (bracketed_host_ok example_library) ''https://site.com/home'' =
     Inr \<lparr>scheme = ''https'', netloc = ''site.com''\<rparr>"
  "urlparse (bracketed_host_ok example_library) ''https://site.com/bare'' =
     Inr \<lparr>scheme = ''https'', netloc = ''site.com''\<rparr>"
  "urlparse (bracketed_host_ok example_library) ''https://site.com/twice'' =
     Inr \<lparr>scheme = ''https'', netloc = ''site.com''\<rparr>"
  "urlparse (bracketed_host_ok example_library) ''HTTP://Other.example:8080/many?page=1'' =
     Inr \<lparr>scheme = ''http'', netloc = ''Other.example:8080''\<rparr>"
  by code_simp+

lemma example_page_urls:
  "page_url ''https://site.com'' ''https'' ''site.com'' []"
  "page_url ''HTTP://Other.example:8080/many?page=1'' ''HTTP'' ''Other.example:8080''
     ''/many?page=1''"
  by code_simp+

lemma example_trouble_free:
  "trouble_free example_library example_session ''https://site.com''"
  "trouble_free example_library example_session ''https://site.com/home''"
  "trouble_free example_library example_session ''https://site.com/bare''"
  "trouble_free example_library example_session ''https://site.com/gone''"
  "trouble_free example_library example_session ''https://slow.example''"
  "trouble_free example_library repaired_session ''https://site.com/gone''"
  "trouble_free example_library repaired_session ''https://site.com/home''"
  "\<not> trouble_free example_library example_session ''https://site.com/rejected''"
  "\<not> trouble_free example_library example_session ''http://host/[/x]''"
  by code_simp+

lemma rejected_page_raises:
  "extract_page_info example_library example_session ''https://site.com/rejected'' None None [] =
     Inl ParserRejectedMarkup"
proof -
  have f: "fetch_url example_library example_session ''https://site.com/rejected'' 30 [] =
      Inr (Some rejected_html, [])"
    using fetch_url_success [where session = example_session
        and u = "''https://site.com/rejected''" and html = rejected_html]
    by (simp add: example_fetches)
  from extract_body [OF f example_nonempty(6), of None None] show ?thesis
    by (simp add: example_parses)
qed

section \<open>Link extraction\<close>

text \<open>
  C2, as the code has it. Take a fetched body that the parser accepts, and its document;
  a page URL \<open>scheme://host\<close>, followed by nothing or by a path, a query or a fragment,
  that \<open>urlparse\<close> accepts. The links of the result are the specification's: the href
  values of the anchors in document order, those that start with a slash resolved against
  the page's scheme and host, only the http and https URLs kept, the first 5 of them. On
  the specification's example page the links are exactly \<open>https://site.com/about\<close> and
  \<open>https://x.com/page\<close>.
\<close>

theorem links_as_specified:
  assumes "session u 30 = Responds 200 (Inr html)" and "BeautifulSoup lib html = Inr doc"
    and "page_url u sch host rest"
    and "urlparse (bracketed_host_ok lib) u \<noteq> Inl ValueError"
    and "task_known progress task_id"
  shows "\<exists>r p c. extract_page_info lib session u progress task_id console = Inr (r, p, c) \<and>
     links r = spec_links (scheme_host sch host) doc"
proof (cases "html = []")
  case True
  with assms(2) have "doc = []" by (simp add: BeautifulSoup_def)
  then have "spec_links (scheme_host sch host) doc = []"
    by (simp add: spec_links_def anchor_hrefs_def map_filter_simps)
  moreover from extract_empty_known [where session = session and u = u and lib = lib
      and progress = progress and task_id = task_id and c = console] assms(1,5) True
  obtain p' where "extract_page_info lib session u progress task_id console =
      Inr (failure_result u, p', console)"
    by auto
  ultimately show ?thesis
    by (simp add: failure_result_def)
next
  case False
  with assms(2) have p: "parse_html lib html = Some doc"
    by (simp add: BeautifulSoup_def split: option.splits)
  have up: "urlparse (bracketed_host_ok lib) u = Inr \<lparr>scheme = map lower_char sch, netloc = host\<rparr>"
    using urlparse_page_url [OF assms(3,4)] .
  from extract_page_known [where session = session and u = u and html = html and lib = lib
      and doc = doc and progress = progress and task_id = task_id and c = console, OF _ False p up assms(5)]
    assms(1)
  show ?thesis
    by (auto simp: scheme_host_def)
qed

theorem links_as_specified_witness:
  "(\<exists>r p c. extract_page_info example_library example_session ''https://site.com'' None None [] =
       Inr (r, p, c) \<and>
     links r = [''https://site.com/about'', ''https://x.com/page'']) \<and>
   (\<exists>r p c. extract_page_info example_library example_session
       ''HTTP://Other.example:8080/many?page=1'' (Some two_tasks) (Some 1) [] = Inr (r, p, c) \<and>
     links r = [''http://Other.example:8080/1'', ''http://Other.example:8080/2'',
                ''http://Other.example:8080/3'', ''http://Other.example:8080/4'',
                ''http://Other.example:8080/5''])"
proof -
  have a: "spec_links (scheme_host ''https'' ''site.com'') links_doc =
      [''https://site.com/about'', ''https://x.com/page'']"
    by code_simp
  have b: "spec_links (scheme_host ''HTTP'' ''Other.example:8080'') many_doc =
      [''http://Other.example:8080/1'', ''http://Other.example:8080/2'',
       ''http://Other.example:8080/3'', ''http://Other.example:8080/4'',
       ''http://Other.example:8080/5'']"
    by code_simp
  from links_as_specified [where session = example_session and u = "''https://site.com''"
      and html = links_html and doc = links_doc and sch = "''https''" and host = "''site.com''"
      and rest = "[]" and progress = None and task_id = None and lib = example_library
      and console = "[]"]
  have 1: "\<exists>r p c. extract_page_info example_library example_session ''https://site.com'' None None [] =
       Inr (r, p, c) \<and> links r = [''https://site.com/about'', ''https://x.com/page'']"
    by (simp add: example_fetches example_documents example_page_urls example_urls
        task_known_examples a)
  from links_as_specified [where session = example_session
      and u = "''HTTP://Other.example:8080/many?page=1''"
      and html = many_html and doc = many_doc and sch = "''HTTP''"
      and host = "''Other.example:8080''" and rest = "''/many?page=1''"
      and progress = "Some two_tasks" and task_id = "Some 1" and lib = example_library
      and console = "[]"]
  have 2: "\<exists>r p c. extract_page_info example_library example_session
       ''HTTP://Other.example:8080/many?page=1'' (Some two_tasks) (Some 1) [] = Inr (r, p, c) \<and>
     links r = [''http://Other.example:8080/1'', ''http://Other.example:8080/2'',
                ''http://Other.example:8080/3'', ''http://Other.example:8080/4'',
                ''http://Other.example:8080/5'']"
    by (simp add: example_fetches example_documents example_page_urls example_urls
        task_known_examples b)
  from 1 2 show ?thesis by blast
qed

text \<open>
  C2 as stated fails on a fetched body that the parser rejects: the construction of the
  document raises ParserRejectedMarkup, and no list of links is extracted.
\<close>

theorem links_rejected_body_counterexample:
  "example_session ''https://site.com/rejected'' 30 = Responds 200 (Inr rejected_html) \<and>
   BeautifulSoup example_library rejected_html = Inl ParserRejectedMarkup \<and>
   extract_page_info example_library example_session ''https://site.com/rejected'' None None [] =
     Inl ParserRejectedMarkup"
  by (simp add: example_fetches example_documents rejected_page_raises)

section \<open>Failed fetches\<close>

text \<open>
  C3 asks for a result, and for no exception, whenever a fetch fails. \<open>fetch_url\<close>
  pastes the URL into the markup of the line it prints. For the URL \<open>http://host/[/x]\<close>,
  answered with status 404, the console rejects the status line; the handler catches that
  MarkupError and prints a line with the same URL, which the console rejects again, and
  this second MarkupError leaves \<open>fetch_url\<close> and \<open>extract_page_info\<close>: there is no
  result for the URL.
\<close>

theorem failed_fetch_raises:
  "fetch_fails (example_session ''http://host/[/x]'' 30) \<and>
   markup_error example_library (status_line ''http://host/[/x]'' 404) =
     Some ''closing tag [/x] does not match any open tag'' \<and>
   markup_error example_library
     (exception_line ''http://host/[/x]'' ''closing tag [/x] does not match any open tag'') =
     Some ''closing tag [/x] does not match any open tag'' \<and>
   extract_page_info example_library example_session ''http://host/[/x]'' None None [] =
     Inl (MarkupError ''closing tag [/x] does not match any open tag'')"
proof -
  have 1: "markup_error example_library (status_line ''http://host/[/x]'' 404) =
     Some ''closing tag [/x] does not match any open tag''"
    by code_simp
  have 2: "markup_error example_library
     (exception_line ''http://host/[/x]'' ''closing tag [/x] does not match any open tag'') =
     Some ''closing tag [/x] does not match any open tag''"
    by code_simp
  have "fetch_url example_library example_session ''http://host/[/x]'' 30 [] =
     Inl (MarkupError ''closing tag [/x] does not match any open tag'')"
    by (simp add: fetch_url_def fetch_url_except_def console_print_def example_fetches 1 2)
  then show ?thesis
    by (simp add: extract_fetch_error example_fetches 1 2)
qed

text \<open>
  When the console prints the line of the failed fetch (or the line of the exception that
  the first print raised), the result is the one that C3 describes.
\<close>

lemma fetch_fails_no_body:
  "fetch_fails (session u 30) \<Longrightarrow> fetch_url lib session u 30 [] = Inr (h, m) \<Longrightarrow> h = None"
  by (cases "session u 30" rule: fetch_fails.cases)
    (auto simp: fetch_url_def fetch_url_except_def console_print_def
      split: option.splits sum.splits if_splits)

lemma failed_fetch_result_when_printed:
  assumes "fetch_fails (session u 30)" and "trouble_free lib session u"
    and "task_known progress task_id"
  shows "\<exists>p c. extract_page_info lib session u progress task_id console =
     Inr (\<lparr>url = u, title = None, description = None, links = []\<rparr>, p, c)"
proof -
  from assms(2) have "returns lib session u" by (simp add: trouble_free_returns)
  then obtain h m where f: "fetch_url lib session u 30 [] = Inr (h, m)"
    by (cases "fetch_url lib session u 30 []") (auto simp: returns_after_fetch)
  with fetch_fails_no_body [where session = session and u = u and lib = lib and h = h and m = m]
    assms(1)
  have f0: "fetch_url lib session u 30 [] = Inr (None, m)" by simp
  then have fc: "fetch_url lib session u 30 console = Inr (None, console @ m)"
    using fetch_url_console [of lib session u 30 console] by simp
  from advance_progress_known [OF assms(3)]
  obtain p' where p': "advance_progress progress task_id = Inr p'" ..
  from extract_no_body [OF fc, of progress task_id] p' show ?thesis
    by (simp add: failure_result_def)
qed

section \<open>Title and description\<close>

text \<open>
  C4, as the code has it. For every fetched body that is not empty and that the parser
  accepts, at a URL that \<open>urlparse\<close> accepts: when the document has no title element the
  title is \<open>No title\<close>, otherwise it is the trimmed text of the first title element; when
  the document has no meta tag named \<open>description\<close> the description is
  \<open>No description\<close>, otherwise it is the trimmed content attribute of the first such
  tag. (An empty body is not parsed: see C10.)
\<close>

theorem title_and_description:
  assumes "session u 30 = Responds 200 (Inr html)" and "html \<noteq> []"
    and "BeautifulSoup lib html = Inr doc"
    and "urlparse (bracketed_host_ok lib) u \<noteq> Inl ValueError"
    and "task_known progress task_id"
  shows "\<exists>r p c. extract_page_info lib session u progress task_id console = Inr (r, p, c) \<and>
     (first_title doc = None \<longrightarrow> title r = Some ''No title'') \<and>
     (\<forall>t. first_title doc = Some t \<longrightarrow> title r = Some (strip (get_text t))) \<and>
     (description_meta doc = None \<longrightarrow> description r = Some ''No description'') \<and>
     (\<forall>m v. description_meta doc = Some m \<longrightarrow> tag_get m ''content'' = Some v \<longrightarrow>
        description r = Some (strip v))"
proof -
  from assms(2,3) have p: "parse_html lib html = Some doc"
    by (simp add: BeautifulSoup_def split: option.splits)
  from urlparse_accepts [OF assms(4)]
  obtain parsed where up: "urlparse (bracketed_host_ok lib) u = Inr parsed" ..
  from extract_page_known [where session = session and u = u and html = html and lib = lib
      and doc = doc and progress = progress and task_id = task_id and c = console,
      OF _ assms(2) p up assms(5)] assms(1)
  show ?thesis
    by auto
qed

theorem title_and_description_witness:
  "(\<exists>r p c. extract_page_info example_library example_session ''https://site.com'' None None [] =
       Inr (r, p, c) \<and>
     title r = Some ''No title'' \<and> description r = Some ''No description'') \<and>
   (\<exists>r p c. extract_page_info example_library example_session ''https://site.com/home'' None None [] =
       Inr (r, p, c) \<and>
     title r = Some ''Home'' \<and> description r = Some ''Welcome'')"
proof -
  have a: "first_title links_doc = None" "description_meta links_doc = None"
    by code_simp+
  have b: "first_title titled_doc = Some (Tag ''title'' [] [NavigableString '' Home ''])"
    "description_meta titled_doc =
       Some (Tag ''meta'' [(''name'', ''description''), (''content'', ''Welcome'')] [])"
    by code_simp+
  have c: "strip '' Home '' = ''Home''" "strip ''Welcome'' = ''Welcome''"
    by code_simp+
  from title_and_description [where session = example_session and u = "''https://site.com''"
      and html = links_html and doc = links_doc and progress = None and task_id = None
      and lib = example_library and console = "[]"]
  have 1: "\<exists>r p c. extract_page_info example_library example_session ''https://site.com'' None None [] =
       Inr (r, p, c) \<and>
     title r = Some ''No title'' \<and> description r = Some ''No description''"
    by (simp add: example_fetches example_documents example_nonempty example_urls
        task_known_examples a)
  from title_and_description [where session = example_session and u = "''https://site.com/home''"
      and html = titled_html and doc = titled_doc and progress = None and task_id = None
      and lib = example_library and console = "[]"]
  have 2: "\<exists>r p c. extract_page_info example_library example_session ''https://site.com/home'' None None [] =
       Inr (r, p, c) \<and>
     title r = Some ''Home'' \<and> description r = Some ''Welcome''"
    by (simp add: example_fetches example_documents example_nonempty example_urls
        task_known_examples b c)
  from 1 2 show ?thesis by blast
qed

text \<open>
  C4 as stated fails on a body that is fetched with status 200 and is empty: the document
  has no title element and no description tag, and the result has no title and no
  description at all, not the two sentinel strings.
\<close>

theorem title_sentinel_counterexample:
  "example_session ''https://site.com/empty'' 30 = Responds 200 (Inr []) \<and>
   BeautifulSoup example_library [] = Inr [] \<and>
   first_title [] = None \<and> description_meta [] = None \<and>
   extract_page_info example_library example_session ''https://site.com/empty'' None None [] =
     Inr (\<lparr>url = ''https://site.com/empty'', title = None, description = None, links = []\<rparr>,
          None, []) \<and>
   title \<lparr>url = ''https://site.com/empty'', title = None, description = None, links = []\<rparr>
     \<noteq> Some ''No title'' \<and>
   description \<lparr>url = ''https://site.com/empty'', title = None, description = None, links = []\<rparr>
     \<noteq> Some ''No description''"
proof -
  have "first_title [] = None" "description_meta [] = None"
    by (simp_all add: first_title_def description_meta_def)
  moreover have "extract_page_info example_library example_session ''https://site.com/empty'' None None [] =
     Inr (\<lparr>url = ''https://site.com/empty'', title = None, description = None, links = []\<rparr>,
          None, [])"
    by (simp add: extract_page_info_def fetch_url_def example_fetches advance_progress_None
        failure_result_def)
  ultimately show ?thesis
    by (simp add: example_fetches BeautifulSoup_def)
qed

text \<open>
  C9, as the code has it. When the first meta tag named \<open>description\<close> has no content
  attribute (the body being one that the parser accepts, at a URL that \<open>urlparse\<close>
  accepts), the description is the empty string, not \<open>No description\<close>.
\<close>

theorem description_without_content:
  assumes "session u 30 = Responds 200 (Inr html)"
    and "BeautifulSoup lib html = Inr doc"
    and "description_meta doc = Some m"
    and "tag_get m ''content'' = None"
    and "urlparse (bracketed_host_ok lib) u \<noteq> Inl ValueError"
    and "task_known progress task_id"
  shows "\<exists>r p c. extract_page_info lib session u progress task_id console = Inr (r, p, c) \<and>
     description r = Some [] \<and> description r \<noteq> Some ''No description''"
proof -
  have ne: "html \<noteq> []"
    using assms(2,3) by (auto simp: BeautifulSoup_def description_meta_def)
  with assms(2) have p: "parse_html lib html = Some doc"
    by (simp add: BeautifulSoup_def split: option.splits)
  from urlparse_accepts [OF assms(5)]
  obtain parsed where up: "urlparse (bracketed_host_ok lib) u = Inr parsed" ..
  from extract_page_known [where session = session and u = u and html = html and lib = lib
      and doc = doc and progress = progress and task_id = task_id and c = console,
      OF _ ne p up assms(6)] assms(1,3,4)
  show ?thesis
    by (auto simp: strip_def)
qed

theorem description_without_content_witness:
  "\<exists>r p c. extract_page_info example_library example_session ''https://site.com/bare'' None None [] =
       Inr (r, p, c) \<and>
     description r = Some [] \<and> description r \<noteq> Some ''No description''"
proof -
  have a: "description_meta bare_doc = Some (Tag ''meta'' [(''name'', ''description'')] [])"
    by code_simp
  from description_without_content [where session = example_session
      and u = "''https://site.com/bare''" and html = bare_html and doc = bare_doc
      and lib = example_library and m = "Tag ''meta'' [(''name'', ''description'')] []"
      and progress = None and task_id = None and console = "[]"]
  show ?thesis
    by (simp add: example_fetches example_documents example_urls task_known_examples a)
qed

text \<open>
  C9 as stated fails on a body with two meta tags named \<open>description\<close>, of which only
  the second has no content attribute: the body contains a description tag without
  content, and the description is the content of the first tag.
\<close>

theorem description_second_tag_counterexample:
  "example_session ''https://site.com/twice'' 30 = Responds 200 (Inr twice_html) \<and>
   BeautifulSoup example_library twice_html = Inr twice_doc \<and>
   list_ex (\<lambda>n. is_description_meta n \<and> tag_get n ''content'' = None) (forest_order twice_doc) \<and>
   extract_page_info example_library example_session ''https://site.com/twice'' None None [] =
     Inr (\<lparr>url = ''https://site.com/twice'', title = Some ''No title'',
           description = Some ''hi'', links = []\<rparr>, None, [])"
proof -
  have a: "list_ex (\<lambda>n. is_description_meta n \<and> tag_get n ''content'' = None)
      (forest_order twice_doc)"
    by code_simp
  have b: "first_title twice_doc = None"
    "description_meta twice_doc =
       Some (Tag ''meta'' [(''name'', ''description''), (''content'', ''hi'')] [])"
    "strip ''hi'' = ''hi''"
    "spec_links (''https'' @ ''://'' @ ''site.com'') twice_doc = []"
    by code_simp+
  have f: "fetch_url example_library example_session ''https://site.com/twice'' 30 [] =
      Inr (Some twice_html, [])"
    using fetch_url_success [where session = example_session
        and u = "''https://site.com/twice''" and html = twice_html]
    by (simp add: example_fetches)
  from extract_body [OF f example_nonempty(4), of None None] a b show ?thesis
    by (simp add: example_fetches example_documents example_parses example_urls
        advance_progress_None)
qed

section \<open>Empty bodies\<close>

text \<open>
  C10. A body fetched with status 200 that is empty gives the result of a failed fetch: no
  title, no description, no links.
\<close>

theorem empty_body_result:
  assumes "session u 30 = Responds 200 (Inr [])" and "task_known progress task_id"
  shows "\<exists>p c. extract_page_info lib session u progress task_id console =
     Inr (\<lparr>url = u, title = None, description = None, links = []\<rparr>, p, c)"
  using extract_empty_known [where session = session and u = u and lib = lib
      and progress = progress and task_id = task_id and c = console] assms
  by (auto simp: failure_result_def)

theorem empty_body_result_witness:
  "\<exists>p c. extract_page_info example_library example_session ''https://site.com/empty'' None None [] =
     Inr (\<lparr>url = ''https://site.com/empty'', title = None, description = None, links = []\<rparr>, p, c)"
  using empty_body_result [of example_session "''https://site.com/empty''" None None
      example_library "[]"]
  by (simp add: example_fetches task_known_examples)

section \<open>One result per URL, in input order\<close>

text \<open>
  C1, as the code has it. Take a list of N URLs with which nothing goes wrong: the
  console prints the line of every failed fetch, the parser accepts every body that is
  fetched and not empty, and \<open>urlparse\<close> accepts the URL of every such body. For every
  completion order of the N fetches, \<open>process_urls\<close> returns, and returns exactly N
  results; result \<open>i\<close> carries URL \<open>i\<close> of the input, and it is the result that the
  single-URL operation gives for that URL on its own.
\<close>

theorem process_urls_one_result_per_url:
  assumes "completion_order sched (length urls)"
    and "\<forall>u \<in> set urls. trouble_free lib session u"
  shows "\<exists>rs p c. process_urls lib session sched urls max_concurrent console = Some (Inr (rs, p, c)) \<and>
     length rs = length urls \<and>
     (\<forall>i<length urls. url (rs ! i) = urls ! i \<and>
        (\<exists>m. extract_page_info lib session (urls ! i) None None [] = Inr (rs ! i, None, m)))"
proof -
  from assms(2) have r: "\<forall>u \<in> set urls. returns lib session u"
    by (simp add: trouble_free_returns)
  from process_urls_returns [OF assms(1) r, of max_concurrent console]
  obtain c' where p: "process_urls lib session sched urls max_concurrent console =
     Some (Inr (map (result_of lib session) urls,
                Some \<lparr>task_index = 1, tasks = [0 \<mapsto> \<lparr>total = int (length urls), completed = 0\<rparr>]\<rparr>, c'))" ..
  have "\<forall>i<length urls. url (result_of lib session (urls ! i)) = urls ! i \<and>
      (\<exists>m. extract_page_info lib session (urls ! i) None None [] =
         Inr (result_of lib session (urls ! i), None, m))"
  proof (intro allI impI)
    fix i
    assume "i < length urls"
    then have "returns lib session (urls ! i)" using r by simp
    from returns_result [OF this]
    obtain m where h: "headless lib session (urls ! i) =
        Inr (result_of lib session (urls ! i), None, m)" ..
    with headless_shape [OF h]
    show "url (result_of lib session (urls ! i)) = urls ! i \<and>
      (\<exists>m. extract_page_info lib session (urls ! i) None None [] =
         Inr (result_of lib session (urls ! i), None, m))"
      by (auto simp: headless_def)
  qed
  with p show ?thesis by simp
qed

theorem process_urls_one_result_per_url_witness:
  "\<exists>rs p c. process_urls example_library example_session [2, 0, 1]
       [''https://site.com/gone'', ''https://site.com'', ''https://site.com/home''] 5 [] =
       Some (Inr (rs, p, c)) \<and>
     length rs = 3 \<and> url (rs ! 0) = ''https://site.com/gone'' \<and>
     url (rs ! 1) = ''https://site.com'' \<and> url (rs ! 2) = ''https://site.com/home''"
proof -
  let ?urls = "[''https://site.com/gone'', ''https://site.com'', ''https://site.com/home'']"
  have co: "completion_order [2, 0, 1] (length ?urls)"
    by (auto simp: completion_order_def)
  have tf: "\<forall>u \<in> set ?urls. trouble_free example_library example_session u"
    by (simp add: example_trouble_free)
  from process_urls_one_result_per_url [OF co tf, of 5 "[]"]
  obtain rs p c where r: "process_urls example_library example_session [2, 0, 1] ?urls 5 [] =
       Some (Inr (rs, p, c))"
    and l: "length rs = length ?urls"
    and a: "\<forall>i<length ?urls. url (rs ! i) = ?urls ! i"
    by blast
  from a have "url (rs ! 0) = ?urls ! 0" "url (rs ! 1) = ?urls ! 1" "url (rs ! 2) = ?urls ! 2"
    by simp_all
  with r l show ?thesis by simp
qed

text \<open>
  C1 as stated fails on a batch with a URL whose body the parser rejects: the task of
  that URL raises ParserRejectedMarkup, \<open>gather\<close> raises it, and \<open>process_urls\<close>
  returns no list.
\<close>

theorem process_urls_rejected_body_counterexample:
  "completion_order [0, 1] (length [''https://site.com'', ''https://site.com/rejected'']) \<and>
   process_urls example_library example_session [0, 1]
     [''https://site.com'', ''https://site.com/rejected''] 5 [] =
     Some (Inl ParserRejectedMarkup)"
proof -
  have co: "completion_order [0, 1] (length [''https://site.com'', ''https://site.com/rejected''])"
    by (auto simp: completion_order_def)
  have a: "add_task Progress 2 =
      (0, \<lparr>task_index = 1, tasks = [0 \<mapsto> \<lparr>total = 2, completed = 0\<rparr>]\<rparr>)"
    by (simp add: add_task_def Progress_def)
  from returns_result [of example_library example_session "''https://site.com''"]
  obtain m where h1: "headless example_library example_session ''https://site.com'' =
      Inr (result_of example_library example_session ''https://site.com'', None, m)"
    using example_trouble_free(1) by (auto simp: trouble_free_returns)
  have h2: "headless example_library example_session ''https://site.com/rejected'' =
      Inl ParserRejectedMarkup"
    by (simp add: headless_def rejected_page_raises)
  show ?thesis
    using co by (simp add: process_urls_def a gather_def page_task_zero h1 h2)
qed

section \<open>Failure isolation\<close>




section \<open>Determinism\<close>



section \<open>Progress signals\<close>

text \<open>
  C7 asks for one advance of the progress reporter per URL. \<open>process_urls\<close> registers its
  task on a new reporter, which numbers it 0, and the guard \<open>if progress and task_id\<close> of
  \<open>extract_page_info\<close> is false for the number 0: no advance is ever made. After a batch
  of two URLs, one fetched and one failed, the task still stands at 0 of 2.
\<close>

theorem progress_not_advanced:
  "fst (add_task Progress 2) = 0 \<and>
   (\<exists>rs p c. process_urls example_library example_session [0, 1]
       [''https://site.com'', ''https://site.com/gone''] 5 [] = Some (Inr (rs, Some p, c)) \<and>
     tasks p 0 = Some \<lparr>total = 2, completed = 0\<rparr>)"
proof -
  let ?urls = "[''https://site.com'', ''https://site.com/gone'']"
  have co: "completion_order [0, 1] (length ?urls)"
    by (auto simp: completion_order_def)
  have r: "\<forall>u \<in> set ?urls. returns example_library example_session u"
    using example_trouble_free by (simp add: trouble_free_returns)
  from process_urls_returns [OF co r, of 5 "[]"]
  show ?thesis
    by (auto simp: add_task_def Progress_def)
qed

text \<open>
  With a task number other than 0 the advance is made: on a reporter with the tasks 0 and
  1, the operation run for task 1 moves that task from 0 to 1.
\<close>

lemma progress_advanced_for_task_one:
  "\<exists>r p c. extract_page_info example_library example_session ''https://site.com/empty''
       (Some two_tasks) (Some 1) [] = Inr (r, Some p, c) \<and>
     tasks two_tasks 1 = Some \<lparr>total = 1, completed = 0\<rparr> \<and>
     tasks p 1 = Some \<lparr>total = 1, completed = 1\<rparr>"
  by (simp add: extract_page_info_def fetch_url_def example_fetches advance_progress_def
      progress_and_task_id_def update_def two_tasks_def add_task_def Progress_def)

text \<open>
  Without a progress reporter, or with one, the outcome is the same: the exception, or
  the result, of the operation run on its own.
\<close>

lemma result_independent_of_progress:
  assumes "task_known progress task_id"
  shows "(\<exists>e. extract_page_info lib session u progress task_id console = Inl e \<and>
       extract_page_info lib session u None None [] = Inl e) \<or>
     (\<exists>r p c m. extract_page_info lib session u progress task_id console = Inr (r, p, c) \<and>
       extract_page_info lib session u None None [] = Inr (r, None, m))"
proof (cases "headless lib session u")
  case (Inl e)
  with extract_known [OF assms, of lib session u console] show ?thesis
    by (auto simp: headless_def)
next
  case (Inr rpm)
  obtain r p m where "rpm = (r, p, m)" by (cases rpm)
  with Inr have h: "headless lib session u = Inr (r, p, m)" by simp
  with headless_shape [OF h] extract_known [OF assms, of lib session u console] show ?thesis
    by (auto simp: headless_def)
qed

end
